theory Spec2Isabelle
  imports Main "HOL-Library.Monad_Syntax" "HOL-Library.Char_ord" "HOL-Library.List_Lexorder"
    "HOL-Library.Option_ord"
begin

section \<open>Strings as Python sees them\<close>

text \<open>
  A Python \<open>str\<close> is modelled as the list of its code points, for code points below 256
  (one \<open>char\<close> each). The character classes below are those of Python 3 on that range:
  \<open>\d\<close>, \<open>\s\<close> and \<open>\w\<close> of the \<open>re\<close> module on \<open>str\<close> patterns,
  \<open>str.isdigit\<close> and \<open>str.lower\<close>.
\<close>

definition code :: "char \<Rightarrow> nat" where
  "code c = of_char c"

definition is_digit :: "char \<Rightarrow> bool" where
  "is_digit c = (48 \<le> code c \<and> code c \<le> 57)"

definition is_space :: "char \<Rightarrow> bool" where
  "is_space c = ((9 \<le> code c \<and> code c \<le> 13) \<or> (28 \<le> code c \<and> code c \<le> 32)
                 \<or> code c = 133 \<or> code c = 160)"

definition is_word :: "char \<Rightarrow> bool" where
  "is_word c = (is_digit c \<or> (65 \<le> code c \<and> code c \<le> 90) \<or> code c = 95
                \<or> (97 \<le> code c \<and> code c \<le> 122)
                \<or> code c \<in> {170, 178, 179, 181, 185, 186, 188, 189, 190}
                \<or> (192 \<le> code c \<and> code c \<noteq> 215 \<and> code c \<noteq> 247))"

definition isdigit_char :: "char \<Rightarrow> bool" where
  "isdigit_char c = (is_digit c \<or> code c \<in> {178, 179, 185})"

definition lower_char :: "char \<Rightarrow> char" where
  "lower_char c =
     (if (65 \<le> code c \<and> code c \<le> 90) \<or> (192 \<le> code c \<and> code c \<le> 222 \<and> code c \<noteq> 215)
      then char_of (code c + 32) else c)"

definition lower :: "string \<Rightarrow> string" where
  "lower s = map lower_char s"

definition str_isdigit :: "string \<Rightarrow> bool" where
  "str_isdigit s = (s \<noteq> [] \<and> list_all isdigit_char s)"

fun startswith :: "string \<Rightarrow> string \<Rightarrow> bool" where
  "startswith s [] = True"
| "startswith [] (p # ps) = False"
| "startswith (c # cs) (p # ps) = (c = p \<and> startswith cs ps)"

text \<open>\<open>contains s sub\<close> is Python's \<open>sub in s\<close> on strings.\<close>

fun contains :: "string \<Rightarrow> string \<Rightarrow> bool" where
  "contains [] sub = (sub = [])"
| "contains (c # cs) sub = (startswith (c # cs) sub \<or> contains cs sub)"

fun replace_char :: "char \<Rightarrow> char \<Rightarrow> string \<Rightarrow> string" where
  "replace_char a b s = map (\<lambda>c. if c = a then b else c) s"

fun join :: "string \<Rightarrow> string list \<Rightarrow> string" where
  "join sep [] = []"
| "join sep [x] = x"
| "join sep (x # y # ys) = x @ sep @ join sep (y # ys)"

subsection \<open>Integers to and from text\<close>

datatype py_error = ValueError | TypeError

definition digit_val :: "char \<Rightarrow> nat" where
  "digit_val c = code c - 48"

definition nat_of_digits :: "string \<Rightarrow> nat" where
  "nat_of_digits s = foldl (\<lambda>a c. 10 * a + digit_val c) 0 s"

text \<open>
  \<open>int(s)\<close>, on the strings the program passes to it: the groups of a regular expression
  match, which are runs of decimal digits or month names. Anything that is not a run of
  decimal digits raises \<open>ValueError\<close>.
\<close>

definition py_int :: "string \<Rightarrow> py_error + int" where
  "py_int s = (if s \<noteq> [] \<and> list_all is_digit s then Inr (int (nat_of_digits s)) else Inl ValueError)"

fun str_nat :: "nat \<Rightarrow> string" where
  "str_nat n = (if n < 10 then [char_of (48 + n)] else str_nat (n div 10) @ [char_of (48 + n mod 10)])"

text \<open>\<open>str(n)\<close> for an \<open>int\<close>.\<close>

definition str_int :: "int \<Rightarrow> string" where
  "str_int i = (if i < 0 then CHR ''-'' # str_nat (nat (- i)) else str_nat (nat i))"

text \<open>\<open>str(v)\<close> for a value read with \<open>dict.get\<close>: a missing key reads as \<open>None\<close>.\<close>

definition str_opt_int :: "int option \<Rightarrow> string" where
  "str_opt_int v = (case v of None \<Rightarrow> ''None'' | Some i \<Rightarrow> str_int i)"

text \<open>The format specification \<open>02d\<close>; formatting \<open>None\<close> with it raises \<open>TypeError\<close>.\<close>

definition fmt_02d :: "int \<Rightarrow> string" where
  "fmt_02d i = (if 0 \<le> i \<and> i < 10 then CHR ''0'' # str_int i else str_int i)"

definition fmt_02d_opt :: "int option \<Rightarrow> py_error + string" where
  "fmt_02d_opt v = (case v of None \<Rightarrow> Inl TypeError | Some i \<Rightarrow> Inr (fmt_02d i))"

section \<open>Temporal extraction\<close>

subsection \<open>The regular expressions\<close>

text \<open>
  Each pattern is modelled by a matcher anchored at the head of its argument, and
  \<open>re_search\<close> tries the start positions from left to right, as \<open>re.search\<close> does.
  The quantifiers \<open>\d{1,2}\<close>, \<open>\d+\<close> and \<open>\s+\<close> are greedy; in these patterns giving a
  character back never helps, because the item that follows cannot match the character
  given back. The alternation of month names is tried in the order written, moving on to
  the next name when the rest of the pattern fails.
\<close>

fun re_search :: "(string \<Rightarrow> 'a option) \<Rightarrow> string \<Rightarrow> 'a option" where
  "re_search m [] = m []"
| "re_search m (c # cs) = (case m (c # cs) of Some g \<Rightarrow> Some g | None \<Rightarrow> re_search m cs)"

definition digits12 :: "string \<Rightarrow> (string \<times> string) option" where
  "digits12 s = (let d = takeWhile is_digit (take 2 s)
                 in if d = [] then None else Some (d, drop (length d) s))"

definition digits1 :: "string \<Rightarrow> (string \<times> string) option" where
  "digits1 s = (let d = takeWhile is_digit s
                in if d = [] then None else Some (d, dropWhile is_digit s))"

definition spaces1 :: "string \<Rightarrow> string option" where
  "spaces1 s = (if takeWhile is_space s = [] then None else Some (dropWhile is_space s))"

definition literal :: "string \<Rightarrow> string \<Rightarrow> string option" where
  "literal l s = (if startswith s l then Some (drop (length l) s) else None)"

definition year4 :: "string \<Rightarrow> (string \<times> string) option" where
  "year4 s = (case s of
       c1 # c2 # c3 # c4 # r \<Rightarrow>
         if c1 = CHR ''2'' \<and> c2 = CHR ''0'' \<and> is_digit c3 \<and> is_digit c4
         then Some ([c1, c2, c3, c4], r) else None
     | _ \<Rightarrow> None)"

definition month_names :: "string list" where
  "month_names = [''january'', ''jan'', ''february'', ''feb'', ''march'', ''mar'',
     ''april'', ''apr'', ''may'', ''june'', ''jun'', ''july'', ''jul'', ''august'', ''aug'',
     ''september'', ''sep'', ''october'', ''oct'', ''november'', ''nov'', ''december'', ''dec'']"

fun alt :: "string list \<Rightarrow> (string \<Rightarrow> 'a option) \<Rightarrow> string \<Rightarrow> (string \<times> 'a) option" where
  "alt [] k s = None"
| "alt (m # ms) k s =
     (if startswith s m
      then (case k (drop (length m) s) of Some r \<Rightarrow> Some (m, r) | None \<Rightarrow> alt ms k s)
      else alt ms k s)"

type_synonym groups = "string \<times> string \<times> string"

text \<open>\<open>(\d{1,2})\s+(january|jan|...|dec)\s+(20\d{2})\<close>\<close>

definition pattern_dmy :: "string \<Rightarrow> groups option" where
  "pattern_dmy s = do {
     (d, r1) \<leftarrow> digits12 s;
     r2 \<leftarrow> spaces1 r1;
     (m, y) \<leftarrow> alt month_names (\<lambda>r3. do { r4 \<leftarrow> spaces1 r3; (y, r5) \<leftarrow> year4 r4; Some y }) r2;
     Some (d, m, y) }"

text \<open>\<open>(january|jan|...|dec)\s+(\d{1,2})\s+(20\d{2})\<close>\<close>

definition pattern_mdy :: "string \<Rightarrow> groups option" where
  "pattern_mdy s = do {
     (m, (d, y)) \<leftarrow> alt month_names (\<lambda>r1. do {
        r2 \<leftarrow> spaces1 r1; (d, r3) \<leftarrow> digits12 r2; r4 \<leftarrow> spaces1 r3; (y, r5) \<leftarrow> year4 r4;
        Some (d, y) }) s;
     Some (m, d, y) }"

text \<open>\<open>(20\d{2})-(\d{1,2})-(\d{1,2})\<close>\<close>

definition pattern_ymd :: "string \<Rightarrow> groups option" where
  "pattern_ymd s = do {
     (y, r1) \<leftarrow> year4 s;
     r2 \<leftarrow> literal ''-'' r1;
     (m, r3) \<leftarrow> digits12 r2;
     r4 \<leftarrow> literal ''-'' r3;
     (d, r5) \<leftarrow> digits12 r4;
     Some (y, m, d) }"

definition date_patterns :: "(string \<Rightarrow> groups option) list" where
  "date_patterns = [pattern_dmy, pattern_mdy, pattern_ymd]"

subsection \<open>Month names\<close>

definition months_map :: "(string \<times> int) list" where
  "months_map = [(''january'', 1), (''jan'', 1), (''february'', 2), (''feb'', 2),
     (''march'', 3), (''mar'', 3), (''april'', 4), (''apr'', 4), (''may'', 5),
     (''june'', 6), (''jun'', 6), (''july'', 7), (''jul'', 7), (''august'', 8), (''aug'', 8),
     (''september'', 9), (''sep'', 9), (''october'', 10), (''oct'', 10),
     (''november'', 11), (''nov'', 11), (''december'', 12), (''dec'', 12)]"

definition month_to_number :: "string \<Rightarrow> int" where
  "month_to_number month_str = (case map_of months_map (lower month_str) of Some n \<Rightarrow> n | None \<Rightarrow> 1)"

subsection \<open>The specific date\<close>

record specific_date =
  sd_year :: int
  sd_month :: int
  sd_day :: int

text \<open>
  Lines 893 to 903: the role of each group is chosen by the shape of the first group, then
  of the third. \<open>int\<close> is applied to the groups from left to right.
\<close>

definition int3 :: "string \<Rightarrow> string \<Rightarrow> string \<Rightarrow> py_error + (int \<times> int \<times> int)" where
  "int3 a b c =
     (case py_int a of Inl e \<Rightarrow> Inl e | Inr x \<Rightarrow>
       (case py_int b of Inl e \<Rightarrow> Inl e | Inr y \<Rightarrow>
         (case py_int c of Inl e \<Rightarrow> Inl e | Inr z \<Rightarrow> Inr (x, y, z))))"

definition date_of_groups :: "groups \<Rightarrow> py_error + specific_date" where
  "date_of_groups g = (case g of (g0, g1, g2) \<Rightarrow>
     if str_isdigit g0 \<and> length g0 = 4 then
       (case int3 g0 g1 g2 of Inl e \<Rightarrow> Inl e
        | Inr (year, month, day) \<Rightarrow> Inr \<lparr>sd_year = year, sd_month = month, sd_day = day\<rparr>)
     else if startswith g2 ''20'' then
       (case py_int g0 of Inl e \<Rightarrow> Inl e | Inr day \<Rightarrow>
         (case py_int g2 of Inl e \<Rightarrow> Inl e | Inr year \<Rightarrow>
            Inr \<lparr>sd_year = year, sd_month = month_to_number g1, sd_day = day\<rparr>))
     else
       (case py_int g1 of Inl e \<Rightarrow> Inl e | Inr day \<Rightarrow>
         (case py_int g2 of Inl e \<Rightarrow> Inl e | Inr year \<Rightarrow>
            Inr \<lparr>sd_year = year, sd_month = month_to_number g0, sd_day = day\<rparr>)))"

text \<open>The loop over \<open>date_patterns\<close>: the first pattern that matches decides, then \<open>break\<close>.\<close>

fun first_match :: "(string \<Rightarrow> groups option) list \<Rightarrow> string \<Rightarrow> groups option" where
  "first_match [] s = None"
| "first_match (p # ps) s = (case re_search p s of Some g \<Rightarrow> Some g | None \<Rightarrow> first_match ps s)"

definition find_specific_date :: "string \<Rightarrow> py_error + specific_date option" where
  "find_specific_date query_lower =
     (case first_match date_patterns query_lower of
        None \<Rightarrow> Inr None
      | Some g \<Rightarrow> (case date_of_groups g of Inl e \<Rightarrow> Inl e | Inr d \<Rightarrow> Inr (Some d)))"

subsection \<open>Years, months and the query intent\<close>

text \<open>
  \<open>re.findall(r'\b(20\d{2})\b', query)\<close>: \<open>prev\<close> is the character before the current
  position (\<open>None\<close> at the start of the text). A word boundary before the digit \<open>2\<close> needs
  a non-word character (or the start) before it; the one after the last digit needs a
  non-word character (or the end) after it. After a match the scan goes on behind it.
\<close>

definition year_here :: "char option \<Rightarrow> string \<Rightarrow> bool" where
  "year_here prev s =
     ((case prev of None \<Rightarrow> True | Some p \<Rightarrow> \<not> is_word p) \<and>
      (case year4 s of None \<Rightarrow> False
       | Some (y, r) \<Rightarrow> (case r of [] \<Rightarrow> True | c # _ \<Rightarrow> \<not> is_word c)))"

fun findall_years :: "char option \<Rightarrow> string \<Rightarrow> string list" where
  "findall_years prev [] = []"
| "findall_years prev (c # cs) =
     (if year_here prev (c # cs)
      then take 4 (c # cs) # findall_years (Some (cs ! 2)) (drop 3 cs)
      else findall_years (Some c) cs)"

text \<open>The loop over \<open>months_map.items()\<close>, in the order the dictionary was written.\<close>

definition months_named :: "string \<Rightarrow> int list" where
  "months_named query_lower =
     map snd (filter (\<lambda>(month_name, month_num). contains query_lower month_name) months_map)"

text \<open>
  \<open>last\s+(\d+)\s+months?\<close>; the value is group 1, a run of decimal digits, of which
  \<open>int\<close> is the value (a run longer than the interpreter's limit on decimal conversions,
  4300 digits by default, is outside the model).
\<close>

definition pattern_last :: "string \<Rightarrow> string option" where
  "pattern_last s = do {
     r1 \<leftarrow> literal ''last'' s;
     r2 \<leftarrow> spaces1 r1;
     (n, r3) \<leftarrow> digits1 r2;
     r4 \<leftarrow> spaces1 r3;
     r5 \<leftarrow> literal ''month'' r4;
     Some n }"

definition last_months :: "int \<Rightarrow> int list" where
  "last_months num_months = [max 1 (13 - num_months) .. 12]"

definition generic_keywords :: "string list" where
  "generic_keywords = [''summary'', ''overview'', ''tell me about'', ''show me'',
     ''uploaded'', ''this file'', ''analyze'', ''what is'']"

record intent =
  query_lower :: string
  years_in_query :: "string list"
  specific_date :: "specific_date option"
  months_in_query :: "int list"
  is_generic_query :: bool

text \<open>
  Lines 875 to 929 of \<open>search_relevant_data\<close>. The only fault is the \<open>ValueError\<close> of
  \<open>int\<close> in the date extraction, which is outside every \<open>try\<close>.
\<close>

definition extract_intent :: "string \<Rightarrow> py_error + intent" where
  "extract_intent query =
     (let ql = lower query;
          years = findall_years None query
      in case find_specific_date ql of
           Inl e \<Rightarrow> Inl e
         | Inr sd \<Rightarrow>
             let months = (if sd = None then months_named ql else []);
                 months' = (case re_search pattern_last ql of
                              Some g \<Rightarrow> if years \<noteq> [] then last_months (int (nat_of_digits g))
                                        else months
                            | None \<Rightarrow> months)
             in Inr \<lparr>query_lower = ql, years_in_query = years, specific_date = sd,
                     months_in_query = months',
                     is_generic_query = list_ex (contains ql) generic_keywords\<rparr>)"

section \<open>Profile records\<close>

text \<open>
  A profile is a nested dictionary read with \<open>dict.get\<close>; every key may be missing, so
  every field is an option. The dictionaries of variables are kept as the lists of their
  items (a code and its entry, the codes distinct) and read with \<open>map_of\<close>. The
  statistics are floating-point numbers: their type is the parameter \<open>'f\<close>, and the
  code that renders them is a parameter of the summarizer.
\<close>

record temporal =
  year :: "int option"
  month :: "int option"
  day :: "int option"
  datetime :: "string option"

record geospatial =
  regional_seas :: "string list option"

record 'f statistics =
  stat_min :: "'f option"
  stat_max :: "'f option"
  stat_mean :: "'f option"

record 'f variable =
  present :: "bool option"
  statistics :: "'f statistics option"

type_synonym 'f variables = "(string \<times> 'f variable) list"

record 'f measurements =
  core_variables :: "'f variables option"
  bgc_variables :: "'f variables option"

record 'f profile =
  temporal :: "temporal option"
  geospatial :: "geospatial option"
  measurements :: "'f measurements option"
  is_uploaded :: "bool option"
  uploaded_filename :: "string option"

text \<open>\<open>profile.get('temporal', {})\<close> and its siblings: a missing key reads as the empty dictionary.\<close>

definition get_temporal :: "'f profile \<Rightarrow> temporal" where
  "get_temporal p = (case temporal p of
       None \<Rightarrow> \<lparr>year = None, month = None, day = None, datetime = None\<rparr> | Some t \<Rightarrow> t)"

definition get_regions :: "'f profile \<Rightarrow> string list \<Rightarrow> string list" where
  "get_regions p dflt = (case geospatial p of None \<Rightarrow> dflt
       | Some g \<Rightarrow> (case regional_seas g of None \<Rightarrow> dflt | Some rs \<Rightarrow> rs))"

definition get_core :: "'f profile \<Rightarrow> 'f variables" where
  "get_core p = (case measurements p of None \<Rightarrow> []
       | Some m \<Rightarrow> (case core_variables m of None \<Rightarrow> [] | Some vs \<Rightarrow> vs))"

definition get_bgc :: "'f profile \<Rightarrow> 'f variables" where
  "get_bgc p = (case measurements p of None \<Rightarrow> []
       | Some m \<Rightarrow> (case bgc_variables m of None \<Rightarrow> [] | Some vs \<Rightarrow> vs))"

text \<open>\<open>vars.get(code, {}).get('present')\<close>, read as a condition.\<close>

definition is_present :: "'f variables \<Rightarrow> string \<Rightarrow> bool" where
  "is_present vars c = (case map_of vars c of None \<Rightarrow> False | Some v \<Rightarrow> present v = Some True)"

text \<open>An integer read with \<open>dict.get\<close>, used as a condition: \<open>None\<close> and \<open>0\<close> are false.\<close>

definition truthy :: "int option \<Rightarrow> bool" where
  "truthy v = (case v of None \<Rightarrow> False | Some i \<Rightarrow> i \<noteq> 0)"

text \<open>\<open>v and abs(v - x) <= k\<close>\<close>

definition near :: "int option \<Rightarrow> int \<Rightarrow> int \<Rightarrow> bool" where
  "near v x k = (case v of None \<Rightarrow> False | Some i \<Rightarrow> i \<noteq> 0 \<and> \<bar>i - x\<bar> \<le> k)"

text \<open>
  \<open>any(abs(v - m) <= k for m in ms)\<close> on a non-empty list: with \<open>v = None\<close> the first
  subtraction raises \<open>TypeError\<close>.
\<close>

definition any_within :: "int option \<Rightarrow> int \<Rightarrow> int list \<Rightarrow> py_error + bool" where
  "any_within v k ms = (case v of None \<Rightarrow> (if ms = [] then Inr False else Inl TypeError)
       | Some i \<Rightarrow> Inr (list_ex (\<lambda>m. \<bar>i - m\<bar> \<le> k) ms))"

definition region_clean :: "string \<Rightarrow> string" where
  "region_clean region = replace_char (CHR ''_'') (CHR '' '') (lower region)"

definition region_hits :: "string \<Rightarrow> string list \<Rightarrow> nat" where
  "region_hits ql regions = length (filter (\<lambda>region. contains ql (region_clean region)) regions)"

section \<open>The strict scorer\<close>

text \<open>Lines 949 to 959: the tier of a specific date, one rule at most.\<close>

definition date_tier :: "specific_date \<Rightarrow> temporal \<Rightarrow> int" where
  "date_tier sd t =
     (if year t = Some (sd_year sd) \<and> month t = Some (sd_month sd) then
        (if day t = Some (sd_day sd) then 20
         else if near (day t) (sd_day sd) 3 then 15
         else if near (day t) (sd_day sd) 7 then 10
         else 8)
      else 0)"

text \<open>Lines 963 to 972: the tier of the years, reached when no specific date was found.\<close>

definition year_tier :: "string list \<Rightarrow> int list \<Rightarrow> temporal \<Rightarrow> py_error + int" where
  "year_tier years months t =
     (if str_opt_int (year t) \<in> set years then
        (if months \<noteq> [] then
           (if month t \<in> Some ` set months then Inr (10 + 8)
            else (case any_within (month t) 1 months of
                    Inl e \<Rightarrow> Inl e
                  | Inr b \<Rightarrow> Inr (if b then 10 + 5 else 10)))
         else Inr (10 + 5))
      else Inr 0)"

definition temporal_tier :: "intent \<Rightarrow> temporal \<Rightarrow> py_error + int" where
  "temporal_tier it t =
     (case specific_date it of
        Some sd \<Rightarrow> Inr (date_tier sd t)
      | None \<Rightarrow> if years_in_query it \<noteq> [] then year_tier (years_in_query it) (months_in_query it) t
                else Inr 0)"

text \<open>Lines 982 to 1000: five keyword families, 3 points each.\<close>

definition parameter_tier :: "string \<Rightarrow> 'f profile \<Rightarrow> int" where
  "parameter_tier ql p =
     (if (contains ql ''temperature'' \<or> contains ql ''temp'') \<and> is_present (get_core p) ''TEMP''
      then 3 else 0)
   + (if (contains ql ''salinity'' \<or> contains ql ''salt'' \<or> contains ql ''psal'')
         \<and> is_present (get_core p) ''PSAL'' then 3 else 0)
   + (if (contains ql ''oxygen'' \<or> contains ql ''doxy'') \<and> is_present (get_core p) ''DOXY''
      then 3 else 0)
   + (if (contains ql ''chlorophyll'' \<or> contains ql ''chla'') \<and> is_present (get_bgc p) ''CHLA''
      then 3 else 0)
   + (if (contains ql ''pressure'' \<or> contains ql ''depth'' \<or> contains ql ''pres'')
         \<and> is_present (get_core p) ''PRES'' then 3 else 0)"

text \<open>
  The body of the \<open>try\<close> of lines 934 to 1005 for one profile: \<open>Inl\<close> is the exception that
  the \<open>except\<close> clause catches, \<open>Inr\<close> the value of \<open>relevance_score\<close> after the fallback rule.
\<close>

definition relevance_score :: "intent \<Rightarrow> 'f profile \<Rightarrow> py_error + int" where
  "relevance_score it p =
     (let uploaded = (if is_generic_query it \<and> is_uploaded p = Some True then 10 else 0)
      in case temporal_tier it (get_temporal p) of
           Inl e \<Rightarrow> Inl e
         | Inr tier \<Rightarrow>
             let score = uploaded + tier
                   + 5 * int (region_hits (query_lower it) (get_regions p []))
                   + parameter_tier (query_lower it) p
             in Inr (if score = 0 \<and> is_present (get_core p) ''TEMP'' then 1 else score))"

section \<open>Ranking\<close>

text \<open>
  The loop of both searches: a profile whose scoring raises is skipped (\<open>continue\<close>), and
  a profile is kept with its score when the score is positive.
\<close>

definition keep_positive :: "('p \<Rightarrow> py_error + int) \<Rightarrow> 'p list \<Rightarrow> ('p \<times> int) list" where
  "keep_positive score argo_data =
     List.map_filter (\<lambda>profile. case score profile of
         Inl e \<Rightarrow> None
       | Inr relevance \<Rightarrow> if relevance > 0 then Some (profile, relevance) else None) argo_data"

text \<open>
  \<open>relevant_profiles.sort(key=lambda x: x[1], reverse=True)\<close>: a stable sort, descending in
  the score.
\<close>

definition sort_by_score :: "('p \<times> int) list \<Rightarrow> ('p \<times> int) list" where
  "sort_by_score relevant_profiles = sort_key (\<lambda>x. - snd x) relevant_profiles"

text \<open>\<open>[profile[0] for profile in relevant_profiles[:15]]\<close>\<close>

definition top15 :: "('p \<times> int) list \<Rightarrow> 'p list" where
  "top15 relevant_profiles = map fst (take 15 relevant_profiles)"

section \<open>The relaxed scorer\<close>

text \<open>\<open>[int(y) for y in years]\<close>\<close>

fun target_years :: "string list \<Rightarrow> py_error + int list" where
  "target_years [] = Inr []"
| "target_years (y # ys) =
     (case py_int y of Inl e \<Rightarrow> Inl e
      | Inr n \<Rightarrow> (case target_years ys of Inl e \<Rightarrow> Inl e | Inr ns \<Rightarrow> Inr (n # ns)))"

text \<open>Lines 1043 to 1053.\<close>

definition flexible_date_tier :: "specific_date \<Rightarrow> temporal \<Rightarrow> int" where
  "flexible_date_tier sd t =
     (if year t = Some (sd_year sd) then
        6 + (if month t = Some (sd_month sd) then
               8 + (if near (day t) (sd_day sd) 14 then 10 else 0)
             else if near (month t) (sd_month sd) 1 then 4
             else 0)
      else 0)"

text \<open>Lines 1056 to 1061.\<close>

definition flexible_year_tier :: "string list \<Rightarrow> temporal \<Rightarrow> py_error + int" where
  "flexible_year_tier years t =
     (case target_years years of
        Inl e \<Rightarrow> Inl e
      | Inr ys \<Rightarrow>
          if year t \<in> Some ` set ys then Inr 8
          else (case any_within (year t) 1 ys of
                  Inl e \<Rightarrow> Inl e
                | Inr b \<Rightarrow> Inr (if b then 4 else 0)))"

text \<open>Lines 1064 to 1068.\<close>

definition flexible_month_tier :: "int list \<Rightarrow> temporal \<Rightarrow> py_error + int" where
  "flexible_month_tier months t =
     (if months \<noteq> [] then
        (if month t \<in> Some ` set months then Inr 6
         else (case any_within (month t) 2 months of
                 Inl e \<Rightarrow> Inl e
               | Inr b \<Rightarrow> Inr (if b then 3 else 0)))
      else Inr 0)"

text \<open>Lines 1077 to 1081.\<close>

definition flexible_parameter_tier :: "string \<Rightarrow> 'f profile \<Rightarrow> int" where
  "flexible_parameter_tier ql p =
     (if contains ql ''temperature'' \<or> contains ql ''salinity'' \<or> contains ql ''analysis'' then
        (if is_present (get_core p) ''TEMP'' then 2 else 0)
      + (if is_present (get_core p) ''PSAL'' then 2 else 0)
      else 0)"

text \<open>The body of the \<open>try\<close> of lines 1033 to 1081 for one profile.\<close>

definition flexible_score ::
  "string \<Rightarrow> string list \<Rightarrow> int list \<Rightarrow> specific_date option \<Rightarrow> 'f profile \<Rightarrow> py_error + int" where
  "flexible_score query years months sd p =
     (let ql = lower query; t = get_temporal p
      in case (case sd of Some d \<Rightarrow> Inr (flexible_date_tier d t)
               | None \<Rightarrow> if years \<noteq> [] then flexible_year_tier years t else Inr 0) of
           Inl e \<Rightarrow> Inl e
         | Inr tier \<Rightarrow>
            (case flexible_month_tier months t of
               Inl e \<Rightarrow> Inl e
             | Inr mtier \<Rightarrow>
                 Inr (tier + mtier + 4 * int (region_hits ql (get_regions p []))
                      + flexible_parameter_tier ql p)))"

section \<open>The two searches\<close>

definition search_relevant_data_flexible ::
  "string \<Rightarrow> 'f profile list \<Rightarrow> string list \<Rightarrow> int list \<Rightarrow> specific_date option \<Rightarrow> 'f profile list" where
  "search_relevant_data_flexible query argo_data years months sd =
     top15 (sort_by_score (keep_positive (flexible_score query years months sd) argo_data))"

text \<open>The two messages of \<open>st.info\<close> that announce the relaxed search.\<close>

datatype notice = ExactDateNotice specific_date | ExpandingNotice

text \<open>
  The result of \<open>search_relevant_data\<close>: the notice shown, if any, and the profiles
  returned. \<open>Inl\<close> is an exception that leaves the function.
\<close>

definition temporal_signal :: "intent \<Rightarrow> bool" where
  "temporal_signal it =
     (years_in_query it \<noteq> [] \<or> months_in_query it \<noteq> [] \<or> specific_date it \<noteq> None)"

definition strict_pass :: "intent \<Rightarrow> 'f profile list \<Rightarrow> ('f profile \<times> int) list" where
  "strict_pass it argo_data = sort_by_score (keep_positive (relevance_score it) argo_data)"

definition search_relevant_data ::
  "string \<Rightarrow> 'f profile list \<Rightarrow> py_error + (notice option \<times> 'f profile list)" where
  "search_relevant_data query argo_data =
     (case extract_intent query of
        Inl e \<Rightarrow> Inl e
      | Inr it \<Rightarrow>
          let relevant_profiles = strict_pass it argo_data
          in if relevant_profiles = [] \<and> temporal_signal it then
               Inr (Some (case specific_date it of Some sd \<Rightarrow> ExactDateNotice sd
                          | None \<Rightarrow> ExpandingNotice),
                    search_relevant_data_flexible query argo_data (years_in_query it)
                      (months_in_query it) (specific_date it))
             else Inr (None, top15 relevant_profiles))"

section \<open>The context summarizer\<close>

text \<open>
  A dictionary of lists filled in a loop, kept in insertion order: \<open>dict_append k v d\<close> is
  \<open>d[k].append(v)\<close> on a \<open>defaultdict(list)\<close>, and also the pair of statements
  \<open>if k not in d: d[k] = []\<close>, \<open>d[k].append(v)\<close>.
\<close>

fun dict_append :: "'k \<Rightarrow> 'v \<Rightarrow> ('k \<times> 'v list) list \<Rightarrow> ('k \<times> 'v list) list" where
  "dict_append k v [] = [(k, [v])]"
| "dict_append k v ((k', vs) # d) =
     (if k = k' then (k', vs @ [v]) # d else (k', vs) # dict_append k v d)"

text \<open>Lines 1101 to 1106. The key is \<open>f"{year}-{month:02d}"\<close>, built only when both are true.\<close>

definition profiles_by_time :: "'f profile list \<Rightarrow> (string \<times> 'f profile list) list" where
  "profiles_by_time profiles =
     foldl (\<lambda>d profile.
        (case (year (get_temporal profile), month (get_temporal profile)) of
           (Some y, Some m) \<Rightarrow>
             if y \<noteq> 0 \<and> m \<noteq> 0 then dict_append (str_int y @ ''-'' @ fmt_02d m) profile d else d
         | _ \<Rightarrow> d)) [] profiles"

text \<open>Lines 1109 to 1111.\<close>

definition temporal_range :: "'f profile list \<Rightarrow> string list" where
  "temporal_range profiles =
     (let by_time = profiles_by_time profiles
      in if length by_time > 1 then
           (let time_keys = sort (map fst by_time)
            in [''TEMPORAL RANGE: '' @ hd time_keys @ '' to '' @ last time_keys
                @ '' ('' @ str_nat (length profiles) @ '' profiles)''])
         else [])"

text \<open>Lines 1118 to 1124.\<close>

definition profiles_by_year ::
  "string list \<Rightarrow> 'f profile list \<Rightarrow> (int option \<times> 'f profile list) list" where
  "profiles_by_year years profiles =
     foldl (\<lambda>d profile.
        if str_opt_int (year (get_temporal profile)) \<in> set years
        then dict_append (year (get_temporal profile)) profile d else d) [] profiles"

definition summary_keywords :: "string list" where
  "summary_keywords = [''summary'', ''overview'', ''tell me'', ''analyze'', ''analysis'']"

definition comparison_keywords :: "string list" where
  "comparison_keywords = [''compare'', ''difference'', ''vs'', ''versus'']"

text \<open>\<open>stats.get(key, 0)\<close> on \<open>temp_data.get('statistics', {})\<close>\<close>

definition get_stat ::
  "'f variable \<Rightarrow> ('f statistics \<Rightarrow> 'f option) \<Rightarrow> 'f::zero" where
  "get_stat v field = (case statistics v of None \<Rightarrow> 0
       | Some stats \<Rightarrow> (case field stats of None \<Rightarrow> 0 | Some x \<Rightarrow> x))"

text \<open>
  The three statistics segments. \<open>f2\<close> renders a number with \<open>.2f\<close> and \<open>f0\<close> with
  \<open>.0f\<close>; the degree sign is code point 176.
\<close>

definition temp_segment :: "('f::zero \<Rightarrow> string) \<Rightarrow> 'f variables \<Rightarrow> string" where
  "temp_segment f2 core_vars =
     (case map_of core_vars ''TEMP'' of
        None \<Rightarrow> []
      | Some temp_data \<Rightarrow>
          if present temp_data = Some True then
            '' | TEMP: '' @ f2 (get_stat temp_data stat_min) @ ''-'' @ f2 (get_stat temp_data stat_max)
            @ [CHR 0xB0] @ ''C (mean: '' @ f2 (get_stat temp_data stat_mean) @ [CHR 0xB0] @ ''C)''
          else [])"

definition sal_segment :: "('f::zero \<Rightarrow> string) \<Rightarrow> 'f variables \<Rightarrow> string" where
  "sal_segment f2 core_vars =
     (case map_of core_vars ''PSAL'' of
        None \<Rightarrow> []
      | Some sal_data \<Rightarrow>
          if present sal_data = Some True then
            '' | SAL: '' @ f2 (get_stat sal_data stat_min) @ ''-'' @ f2 (get_stat sal_data stat_max)
            @ '' PSU (mean: '' @ f2 (get_stat sal_data stat_mean) @ '' PSU)''
          else [])"

definition depth_segment :: "('f::zero \<Rightarrow> string) \<Rightarrow> 'f variables \<Rightarrow> string" where
  "depth_segment f0 core_vars =
     (case map_of core_vars ''PRES'' of
        None \<Rightarrow> []
      | Some pres_data \<Rightarrow>
          if present pres_data = Some True then
            '' | DEPTH: 0-'' @ f0 (get_stat pres_data stat_max) @ ''m''
          else [])"

text \<open>The part of a segment that both branches share: date, regions and file name.\<close>

definition profile_origin :: "'f profile \<Rightarrow> string" where
  "profile_origin profile =
     '' - Profile ''
     @ take 10 (case datetime (get_temporal profile) of None \<Rightarrow> ''unknown'' | Some d \<Rightarrow> d)
     @ '' from '' @ join '', '' (get_regions profile [''Ocean''])
     @ (case uploaded_filename profile of
          None \<Rightarrow> []
        | Some name \<Rightarrow> if name \<noteq> [] then '' (File: '' @ name @ '')'' else [])"

text \<open>Lines 1129 to 1160: one segment of a comparison query.\<close>

definition comparison_info ::
  "('f::zero \<Rightarrow> string) \<Rightarrow> ('f \<Rightarrow> string) \<Rightarrow> string \<Rightarrow> bool \<Rightarrow> int option \<Rightarrow> 'f profile \<Rightarrow> string" where
  "comparison_info f2 f0 ql is_summary yr profile =
     ''REAL DATA ['' @ str_opt_int yr @ '']'' @ profile_origin profile
     @ (if contains ql ''temperature'' \<or> contains ql ''temp'' \<or> is_summary
        then temp_segment f2 (get_core profile) else [])
     @ (if contains ql ''salinity'' \<or> contains ql ''salt'' \<or> is_summary
        then sal_segment f2 (get_core profile) else [])
     @ (if is_summary then depth_segment f0 (get_core profile) else [])"

text \<open>
  Lines 1126 to 1128: the years in ascending order, three profiles at most for each. The
  keys of the dictionary are distinct, so sorting its items by key visits
  \<open>profiles_by_year[year]\<close> for each \<open>year\<close> of \<open>sorted(profiles_by_year.keys())\<close>.
\<close>

definition comparison_parts ::
  "('f::zero \<Rightarrow> string) \<Rightarrow> ('f \<Rightarrow> string) \<Rightarrow> string \<Rightarrow> bool \<Rightarrow> string list \<Rightarrow> 'f profile list
   \<Rightarrow> string list" where
  "comparison_parts f2 f0 ql is_summary years profiles =
     concat (map (\<lambda>(yr, year_profiles).
                map (comparison_info f2 f0 ql is_summary yr) (take 3 year_profiles))
             (sort_key fst (profiles_by_year years profiles)))"

text \<open>
  Lines 1163 to 1198: one segment of any other query. The format specification \<open>02d\<close>
  is applied to month and day as they were read: a missing one raises \<open>TypeError\<close>.
\<close>

definition plain_info ::
  "('f::zero \<Rightarrow> string) \<Rightarrow> ('f \<Rightarrow> string) \<Rightarrow> 'f profile \<Rightarrow> py_error + string" where
  "plain_info f2 f0 profile =
     (case fmt_02d_opt (month (get_temporal profile)) of
        Inl e \<Rightarrow> Inl e
      | Inr mm \<Rightarrow>
         (case fmt_02d_opt (day (get_temporal profile)) of
            Inl e \<Rightarrow> Inl e
          | Inr dd \<Rightarrow>
              Inr (''REAL DATA ['' @ str_opt_int (year (get_temporal profile)) @ ''-'' @ mm
                   @ ''-'' @ dd @ '']'' @ profile_origin profile
                   @ temp_segment f2 (get_core profile)
                   @ sal_segment f2 (get_core profile)
                   @ depth_segment f0 (get_core profile))))"

fun plain_parts ::
  "('f::zero \<Rightarrow> string) \<Rightarrow> ('f \<Rightarrow> string) \<Rightarrow> 'f profile list \<Rightarrow> py_error + string list" where
  "plain_parts f2 f0 [] = Inr []"
| "plain_parts f2 f0 (profile # profiles) =
     (case plain_info f2 f0 profile of
        Inl e \<Rightarrow> Inl e
      | Inr info \<Rightarrow>
         (case plain_parts f2 f0 profiles of
            Inl e \<Rightarrow> Inl e
          | Inr infos \<Rightarrow> Inr (info # infos)))"

definition no_data :: string where
  "no_data = ''No relevant data found in the specified time period.''"

definition is_comparison_query :: "string \<Rightarrow> bool" where
  "is_comparison_query query =
     (list_ex (contains (lower query)) comparison_keywords \<and> findall_years None query \<noteq> [])"

text \<open>
  \<open>create_context_summary\<close>, with the two renderers of numbers as parameters. \<open>Inl\<close> is an
  exception that leaves the function: it has no \<open>try\<close>.
\<close>

definition create_context_summary ::
  "('f::zero \<Rightarrow> string) \<Rightarrow> ('f \<Rightarrow> string) \<Rightarrow> 'f profile list \<Rightarrow> string \<Rightarrow> py_error + string" where
  "create_context_summary f2 f0 profiles query =
     (if profiles = [] then Inr no_data
      else
        let ql = lower query;
            context_parts = temporal_range profiles;
            is_summary = list_ex (contains ql) summary_keywords
        in if is_comparison_query query then
             Inr (join '' || '' (context_parts
                    @ comparison_parts f2 f0 ql is_summary (findall_years None query) profiles))
           else
             (case plain_parts f2 f0 (take 10 profiles) of
                Inl e \<Rightarrow> Inl e
              | Inr infos \<Rightarrow> Inr (join '' || '' (context_parts @ infos))))"

section \<open>Example inputs\<close>

text \<open>
  A profile of the Bay of Bengal with the given year, month and day (each possibly
  missing) and the given \<open>TEMP.present\<close> flag; no statistics, not uploaded.
\<close>

definition example_profile :: "int option \<Rightarrow> int option \<Rightarrow> int option \<Rightarrow> bool \<Rightarrow> 'f profile" where
  "example_profile y m d temp =
     \<lparr>temporal = Some \<lparr>year = y, month = m, day = d, datetime = None\<rparr>,
      geospatial = Some \<lparr>regional_seas = Some [''Bay_of_Bengal'']\<rparr>,
      measurements = Some \<lparr>core_variables = Some [(''TEMP'', \<lparr>present = Some temp, statistics = None\<rparr>)],
                            bgc_variables = None\<rparr>,
      is_uploaded = None, uploaded_filename = None\<rparr>"

section \<open>The summarizer: the sentinel, the empty summary and the missing month\<close>

text \<open>
  Claim C7. For every query, \<open>create_context_summary\<close> applied to an empty profile list
  returns exactly the fixed sentinel
  \<open>No relevant data found in the specified time period.\<close>
\<close>

theorem summary_of_no_profiles:
  "create_context_summary f2 f0 [] query
     = Inr ''No relevant data found in the specified time period.''"
  by (simp add: create_context_summary_def no_data_def)

theorem summary_of_no_profiles_witness:
  "create_context_summary str_int str_int ([] :: int profile list) ''salinity in 2023''
     = Inr ''No relevant data found in the specified time period.''"
  by (rule summary_of_no_profiles)

lemma profiles_by_year_unmatched:
  "\<forall>p \<in> set profiles. str_opt_int (year (get_temporal p)) \<notin> set years \<Longrightarrow>
     profiles_by_year years profiles = []"
  unfolding profiles_by_year_def by (induction profiles rule: rev_induct) simp_all

text \<open>
  Claim C10. The sentinel is produced only for an empty list: for a non-empty profile
  list with no more than one year-month group and a comparison query (a comparison keyword
  and a literal year) whose years are the year of no profile, \<open>create_context_summary\<close>
  returns the empty string, which is neither the sentinel nor a profile segment. The
  witness is such a list and such a query.
\<close>

theorem summary_empty_for_unmatched_comparison:
  assumes "profiles \<noteq> []"
    and "is_comparison_query query"
    and "\<forall>p \<in> set profiles.
           str_opt_int (year (get_temporal p)) \<notin> set (findall_years None query)"
    and "length (profiles_by_time profiles) \<le> 1"
  shows "create_context_summary f2 f0 profiles query = Inr []
         \<and> create_context_summary f2 f0 profiles query \<noteq> Inr no_data"
  using assms
  by (simp add: create_context_summary_def temporal_range_def comparison_parts_def
      profiles_by_year_unmatched Let_def no_data_def)

theorem summary_empty_for_unmatched_comparison_witness:
  "is_comparison_query ''compare 2021''
   \<and> findall_years None ''compare 2021'' = [''2021'']
   \<and> map fst (profiles_by_time [example_profile (Some 2023) (Some 8) (Some 10) True :: int profile])
       = [''2023-08'']
   \<and> create_context_summary str_int str_int
        [example_profile (Some 2023) (Some 8) (Some 10) True :: int profile] ''compare 2021'' = Inr []"
proof -
  let ?ps = "[example_profile (Some 2023) (Some 8) (Some 10) True :: int profile]"
  have h1: "?ps \<noteq> []" by simp
  have h2: "is_comparison_query ''compare 2021''" by code_simp
  have h3: "\<forall>p \<in> set ?ps.
      str_opt_int (year (get_temporal p)) \<notin> set (findall_years None ''compare 2021'')"
    by code_simp
  have h4: "length (profiles_by_time ?ps) \<le> 1" by code_simp
  have h5: "findall_years None ''compare 2021'' = [''2021'']" by code_simp
  have h6: "map fst (profiles_by_time ?ps) = [''2023-08'']" by code_simp
  from summary_empty_for_unmatched_comparison[OF h1 h2 h3 h4, of str_int str_int] h2 h5 h6
  show ?thesis by simp
qed

lemma plain_info_raises:
  "month (get_temporal p) = None \<or> day (get_temporal p) = None \<Longrightarrow>
     plain_info f2 f0 p = Inl TypeError"
  by (auto simp: plain_info_def fmt_02d_opt_def split: option.splits sum.splits)

lemma plain_info_error: "plain_info f2 f0 p = Inl e \<Longrightarrow> e = TypeError"
  by (auto simp: plain_info_def fmt_02d_opt_def split: option.splits sum.splits)

lemma plain_parts_raises:
  "\<exists>p \<in> set ps. month (get_temporal p) = None \<or> day (get_temporal p) = None \<Longrightarrow>
     plain_parts f2 f0 ps = Inl TypeError"
proof (induction ps)
  case Nil
  then show ?case by simp
next
  case (Cons p ps)
  show ?case
  proof (cases "plain_info f2 f0 p")
    case (Inl e)
    then show ?thesis using plain_info_error[OF Inl] by simp
  next
    case (Inr info)
    have "\<not> (month (get_temporal p) = None \<or> day (get_temporal p) = None)"
    proof
      assume "month (get_temporal p) = None \<or> day (get_temporal p) = None"
      from plain_info_raises[OF this, of f2 f0] Inr show False by simp
    qed
    with Cons.prems
    have "\<exists>p \<in> set ps. month (get_temporal p) = None \<or> day (get_temporal p) = None"
      by auto
    from Cons.IH[OF this] Inr show ?thesis by simp
  qed
qed

text \<open>
  Outside a comparison query, one profile without month or day among the first ten makes
  the whole summary raise.
\<close>

lemma summary_raises:
  assumes "\<not> is_comparison_query query"
    and "\<exists>p \<in> set (take 10 profiles).
           month (get_temporal p) = None \<or> day (get_temporal p) = None"
  shows "create_context_summary f2 f0 profiles query = Inl TypeError"
proof -
  from assms(2) have "profiles \<noteq> []" by auto
  with assms(1) plain_parts_raises[OF assms(2), of f2 f0] show ?thesis
    by (simp add: create_context_summary_def Let_def)
qed

lemma bay_query_is_no_comparison: "\<not> is_comparison_query ''temperature in bay of bengal''"
  by code_simp

lemma bay_query_finds_profile_without_month:
  "search_relevant_data ''temperature in bay of bengal''
     [example_profile (Some 2023) None (Some 10) True :: int profile]
   = Inr (None, [example_profile (Some 2023) None (Some 10) True])"
  by code_simp

text \<open>
  Claim C2 says that the summarizer returns a string for every profile list and query, in
  particular for a profile that scored on region and parameter keywords and has no month.
  The code does not: the strict search returns such a profile
  (\<open>bay_query_finds_profile_without_month\<close>), and on it \<open>create_context_summary\<close> raises
  \<open>TypeError\<close> at the format specification \<open>02d\<close> of line 1173.
\<close>

theorem summary_raises_without_month:
  "create_context_summary f2 f0 [example_profile (Some 2023) None (Some 10) True]
     ''temperature in bay of bengal'' = Inl TypeError"
  by (rule summary_raises[OF bay_query_is_no_comparison])
     (simp add: example_profile_def get_temporal_def)

section \<open>The strict scorer: bounds\<close>

lemma date_tier_nonneg: "0 \<le> date_tier sd t"
  by (simp add: date_tier_def)

lemma parameter_tier_nonneg: "0 \<le> parameter_tier ql p"
  by (simp add: parameter_tier_def)

lemma year_tier_cases:
  "year_tier years months t =
     (if str_opt_int (year t) \<in> set years \<and> months \<noteq> [] \<and> month t = None then Inl TypeError
      else Inr (if str_opt_int (year t) \<notin> set years then 0
                else if months = [] then 15
                else if month t \<in> Some ` set months then 18
                else if list_ex (\<lambda>m. \<bar>the (month t) - m\<bar> \<le> 1) months then 15 else 10))"
  by (auto simp: year_tier_def any_within_def split: option.splits)

lemma temporal_tier_result:
  "if specific_date it = None \<and> str_opt_int (year t) \<in> set (years_in_query it)
      \<and> months_in_query it \<noteq> [] \<and> month t = None
   then temporal_tier it t = Inl TypeError
   else (\<exists>s. temporal_tier it t = Inr s \<and> 0 \<le> s)"
  by (auto simp: temporal_tier_def year_tier_cases date_tier_nonneg split: option.splits)

text \<open>
  Claim C3, as amended. For every profile and query intent, the strict scoring of the
  profile either raises or yields a non-negative integer that is at least 1 when
  \<open>TEMP.present\<close> is true (the fallback rule). It raises \<open>TypeError\<close>, and the profile is
  skipped whatever its \<open>TEMP\<close> flag, exactly when no specific date was extracted, the text
  of the profile's year is one of the years of the query, months were extracted and the
  profile has no month.
\<close>

theorem relevance_score_bounds:
  "if specific_date it = None \<and> str_opt_int (year (get_temporal p)) \<in> set (years_in_query it)
      \<and> months_in_query it \<noteq> [] \<and> month (get_temporal p) = None
   then relevance_score it p = Inl TypeError
   else (\<exists>s. relevance_score it p = Inr s \<and> 0 \<le> s
             \<and> (is_present (get_core p) ''TEMP'' \<longrightarrow> 1 \<le> s))"
proof -
  let ?faulty = "specific_date it = None
      \<and> str_opt_int (year (get_temporal p)) \<in> set (years_in_query it)
      \<and> months_in_query it \<noteq> [] \<and> month (get_temporal p) = None"
  show ?thesis
  proof (cases ?faulty)
    case True
    with temporal_tier_result[of it "get_temporal p"]
    have "temporal_tier it (get_temporal p) = Inl TypeError" by simp
    with True show ?thesis by (simp add: relevance_score_def)
  next
    case False
    with temporal_tier_result[of it "get_temporal p"]
    obtain tier where tier: "temporal_tier it (get_temporal p) = Inr tier" "0 \<le> tier"
      by auto
    have "0 \<le> parameter_tier (query_lower it) p" by (rule parameter_tier_nonneg)
    with tier False show ?thesis
      by (auto simp: relevance_score_def Let_def)
  qed
qed

theorem relevance_score_bounds_witness:
  "extract_intent ''temperature in Bay of Bengal August 2023'' =
       Inr \<lparr>query_lower = ''temperature in bay of bengal august 2023'',
            years_in_query = [''2023''], specific_date = None, months_in_query = [8, 8],
            is_generic_query = False\<rparr>
   \<and> (\<exists>s. relevance_score
        \<lparr>query_lower = ''temperature in bay of bengal august 2023'',
         years_in_query = [''2023''], specific_date = None, months_in_query = [8, 8],
         is_generic_query = False\<rparr>
        (example_profile (Some 2023) (Some 8) (Some 10) True :: int profile) = Inr s \<and> 1 \<le> s)"
proof -
  let ?it = "\<lparr>query_lower = ''temperature in bay of bengal august 2023'',
            years_in_query = [''2023''], specific_date = None, months_in_query = [8, 8],
            is_generic_query = False\<rparr>"
  let ?p = "example_profile (Some 2023) (Some 8) (Some 10) True :: int profile"
  have e: "extract_intent ''temperature in Bay of Bengal August 2023'' = Inr ?it" by code_simp
  have m: "month (get_temporal ?p) \<noteq> None" by code_simp
  have t: "is_present (get_core ?p) ''TEMP''" by code_simp
  from relevance_score_bounds[of ?it ?p] m t e show ?thesis by auto
qed

text \<open>
  Claim C3 as stated fails: for the query \<open>august 2023\<close>, a profile of 2023 with
  \<open>TEMP.present\<close> true and no month has no score at all. Its scoring raises, the profile is
  skipped by the strict search, and the relaxed search skips it as well.
\<close>

theorem relevance_score_counterexample:
  "is_present (get_core (example_profile (Some 2023) None (Some 10) True :: int profile)) ''TEMP''
   \<and> extract_intent ''august 2023'' =
       Inr \<lparr>query_lower = ''august 2023'', years_in_query = [''2023''], specific_date = None,
            months_in_query = [8, 8], is_generic_query = False\<rparr>
   \<and> relevance_score
        \<lparr>query_lower = ''august 2023'', years_in_query = [''2023''], specific_date = None,
         months_in_query = [8, 8], is_generic_query = False\<rparr>
        (example_profile (Some 2023) None (Some 10) True :: int profile) = Inl TypeError
   \<and> search_relevant_data ''august 2023''
        [example_profile (Some 2023) None (Some 10) True :: int profile]
       = Inr (Some ExpandingNotice, [])"
  by code_simp

section \<open>Ranking and escalation\<close>

lemma keep_positive_set:
  "(p, s) \<in> set (keep_positive score ps) \<Longrightarrow> p \<in> set ps \<and> score p = Inr s \<and> 0 < s"
  by (induction ps) (auto simp: keep_positive_def split: sum.splits if_splits)

lemma keep_positive_empty:
  "keep_positive score ps = [] \<longleftrightarrow> (\<forall>p \<in> set ps. \<forall>s. score p = Inr s \<longrightarrow> s \<le> 0)"
  by (induction ps) (auto simp: keep_positive_def split: sum.splits if_splits)

lemma keep_positive_by_score:
  "0 < k \<Longrightarrow>
     map fst (filter (\<lambda>x. snd x = k) (keep_positive score ps)) = filter (\<lambda>p. score p = Inr k) ps"
  by (induction ps) (auto simp: keep_positive_def split: sum.splits if_splits)

lemma sort_by_score_descending: "sorted_wrt (\<lambda>a b. snd b \<le> snd a) (sort_by_score xs)"
proof -
  have "sorted (map (\<lambda>x. - snd x) (sort_key (\<lambda>x. - snd x) xs))" by (rule sorted_sort_key)
  then show ?thesis by (simp add: sort_by_score_def sorted_wrt_map)
qed

lemma sort_by_score_stable:
  "filter (\<lambda>x. snd x = k) (sort_by_score xs) = filter (\<lambda>x. snd x = k) xs"
  using sort_key_stable[of "\<lambda>x. - snd x" "- k" xs] by (simp add: sort_by_score_def)

lemma sort_by_score_set: "set (sort_by_score xs) = set xs"
  by (simp add: sort_by_score_def)

lemma sort_by_score_empty: "sort_by_score xs = [] \<longleftrightarrow> xs = []"
  by (metis sort_by_score_set set_empty)

lemma top15_length: "length (top15 xs) \<le> 15"
  by (simp add: top15_def)

lemma ex_first_and_third: "\<exists>r. A r \<and> B r \<and> C r \<and> D r \<Longrightarrow> \<exists>r. A r \<and> C r"
  by blast

text \<open>What filtering, sorting and truncating give, for any scorer.\<close>

lemma rank_properties:
  fixes score :: "'p \<Rightarrow> py_error + int" and argo_data :: "'p list"
  shows "\<exists>ranked. top15 (sort_by_score (keep_positive score argo_data)) = map fst (take 15 ranked)
           \<and> (\<forall>x \<in> set ranked. score (fst x) = Inr (snd x) \<and> 0 < snd x)
           \<and> sorted_wrt (\<lambda>a b. snd b \<le> snd a) ranked
           \<and> (\<forall>k>0. map fst (filter (\<lambda>x. snd x = k) ranked)
                        = filter (\<lambda>p. score p = Inr k) argo_data)"
proof (intro exI conjI)
  let ?ranked = "sort_by_score (keep_positive score argo_data)"
  show "top15 ?ranked = map fst (take 15 ?ranked)" by (simp add: top15_def)
  show "\<forall>x \<in> set ?ranked. score (fst x) = Inr (snd x) \<and> 0 < snd x"
    using keep_positive_set[of _ _ score argo_data] by (auto simp: sort_by_score_set)
  show "sorted_wrt (\<lambda>a b. snd b \<le> snd a) ?ranked" by (rule sort_by_score_descending)
  show "\<forall>k>0. map fst (filter (\<lambda>x. snd x = k) ?ranked) = filter (\<lambda>p. score p = Inr k) argo_data"
    by (simp add: sort_by_score_stable keep_positive_by_score)
qed

text \<open>
  Claim C4. Whenever \<open>search_relevant_data\<close> returns, and for every call of
  \<open>search_relevant_data_flexible\<close>, the result has 15 entries at most and is the first 15
  profiles of a list \<open>ranked\<close> of profiles with their scores, where \<open>score\<close> is the scorer of
  the pass that produced the result (the strict one when no notice was shown, the relaxed
  one otherwise): every entry of \<open>ranked\<close> carries its score, which is positive; the scores
  never increase along \<open>ranked\<close>, so a higher score comes before a lower one; and for every
  positive score \<open>k\<close>, the profiles of \<open>ranked\<close> with score \<open>k\<close> are the profiles of the input
  with score \<open>k\<close>, in the order of the input (the sort is stable, and nothing with a
  positive score is left out before truncation).
\<close>

theorem ranking_contract:
  fixes argo_data :: "'f profile list"
  assumes "(search_relevant_data query argo_data = Inr (shown, result)
             \<and> extract_intent query = Inr it
             \<and> score = (if shown = None then relevance_score it
                        else flexible_score query (years_in_query it) (months_in_query it)
                               (specific_date it)))
           \<or> (result = search_relevant_data_flexible query argo_data years months sd
             \<and> score = flexible_score query years months sd)"
  shows "length result \<le> 15
     \<and> (\<exists>ranked. result = map fst (take 15 ranked)
          \<and> (\<forall>x \<in> set ranked. score (fst x) = Inr (snd x) \<and> 0 < snd x)
          \<and> sorted_wrt (\<lambda>a b. snd b \<le> snd a) ranked
          \<and> (\<forall>k>0. map fst (filter (\<lambda>x. snd x = k) ranked)
                       = filter (\<lambda>p. score p = Inr k) argo_data))"
proof -
  have "result = top15 (sort_by_score (keep_positive score argo_data))"
    using assms
    by (auto simp: search_relevant_data_def search_relevant_data_flexible_def strict_pass_def
        Let_def split: if_splits)
  then show ?thesis
    using rank_properties[of score argo_data]
      top15_length[of "sort_by_score (keep_positive score argo_data)"]
    by simp
qed

theorem ranking_contract_witness:
  "search_relevant_data ''temperature 2023''
     [example_profile (Some 2022) (Some 8) (Some 10) True :: int profile,
      example_profile (Some 2023) (Some 8) (Some 10) True,
      example_profile (Some 2021) (Some 8) (Some 10) True,
      example_profile (Some 2023) (Some 1) None True]
   = Inr (None,
     [example_profile (Some 2023) (Some 8) (Some 10) True,
      example_profile (Some 2023) (Some 1) None True,
      example_profile (Some 2022) (Some 8) (Some 10) True,
      example_profile (Some 2021) (Some 8) (Some 10) True])
   \<and> (\<exists>ranked :: (int profile \<times> int) list.
        [example_profile (Some 2023) (Some 8) (Some 10) True :: int profile,
         example_profile (Some 2023) (Some 1) None True,
         example_profile (Some 2022) (Some 8) (Some 10) True,
         example_profile (Some 2021) (Some 8) (Some 10) True] = map fst (take 15 ranked)
        \<and> sorted_wrt (\<lambda>a b. snd b \<le> snd a) ranked)"
proof -
  let ?q = "''temperature 2023''"
  let ?ps = "[example_profile (Some 2022) (Some 8) (Some 10) True :: int profile,
      example_profile (Some 2023) (Some 8) (Some 10) True,
      example_profile (Some 2021) (Some 8) (Some 10) True,
      example_profile (Some 2023) (Some 1) None True]"
  let ?r = "[example_profile (Some 2023) (Some 8) (Some 10) True :: int profile,
      example_profile (Some 2023) (Some 1) None True,
      example_profile (Some 2022) (Some 8) (Some 10) True,
      example_profile (Some 2021) (Some 8) (Some 10) True]"
  let ?it = "\<lparr>query_lower = ''temperature 2023'', years_in_query = [''2023''],
            specific_date = None, months_in_query = [], is_generic_query = False\<rparr>"
  have s: "search_relevant_data ?q ?ps = Inr (None, ?r)" by code_simp
  have e: "extract_intent ?q = Inr ?it" by code_simp
  have h: "(search_relevant_data ?q ?ps = Inr (None, ?r) \<and> extract_intent ?q = Inr ?it
        \<and> relevance_score ?it = (if (None :: notice option) = None then relevance_score ?it
              else flexible_score ?q (years_in_query ?it) (months_in_query ?it) (specific_date ?it)))
      \<or> (?r = search_relevant_data_flexible ?q ?ps [] [] None
        \<and> relevance_score ?it = flexible_score ?q [] [] None)"
    using s e by simp
  have w: "\<exists>ranked :: (int profile \<times> int) list.
      ?r = map fst (take 15 ranked) \<and> sorted_wrt (\<lambda>a b. snd b \<le> snd a) ranked"
    by (rule ex_first_and_third[OF conjunct2[OF ranking_contract[OF h]]])
  show ?thesis by (rule conjI[OF s w])
qed

text \<open>
  Claim C5. For a query whose intent is extracted, \<open>search_relevant_data\<close> returns; it
  shows a notice and returns the result of \<open>search_relevant_data_flexible\<close> exactly when no
  profile has a positive strict score and the query carried a temporal signal (a specific
  date, a year or a month). Otherwise it returns the strict ranking without a notice, which
  is the empty list when no profile scored and there was no temporal signal. The result of
  the relaxed search is returned as it is, empty or not.
\<close>

theorem escalation_contract:
  fixes argo_data :: "'f profile list"
  assumes "extract_intent query = Inr it"
  shows "\<exists>shown result. search_relevant_data query argo_data = Inr (shown, result)
     \<and> ((shown \<noteq> None) =
          ((\<forall>p \<in> set argo_data. \<forall>s. relevance_score it p = Inr s \<longrightarrow> s \<le> 0)
           \<and> (specific_date it \<noteq> None \<or> years_in_query it \<noteq> [] \<or> months_in_query it \<noteq> [])))
     \<and> (shown \<noteq> None \<longrightarrow>
          result = search_relevant_data_flexible query argo_data (years_in_query it)
                     (months_in_query it) (specific_date it))
     \<and> (shown = None \<longrightarrow> result = top15 (strict_pass it argo_data))
     \<and> ((\<forall>p \<in> set argo_data. \<forall>s. relevance_score it p = Inr s \<longrightarrow> s \<le> 0)
          \<and> specific_date it = None \<and> years_in_query it = [] \<and> months_in_query it = []
          \<longrightarrow> shown = None \<and> result = [])
     \<and> (shown \<noteq> None
          \<and> search_relevant_data_flexible query argo_data (years_in_query it)
                (months_in_query it) (specific_date it) = []
          \<longrightarrow> result = [])"
proof -
  have e: "strict_pass it argo_data = [] \<longleftrightarrow>
      (\<forall>p \<in> set argo_data. \<forall>s. relevance_score it p = Inr s \<longrightarrow> s \<le> 0)"
    by (simp add: strict_pass_def sort_by_score_empty keep_positive_empty)
  show ?thesis
  proof (cases "strict_pass it argo_data = [] \<and> temporal_signal it")
    case True
    then show ?thesis using assms e
      by (auto simp: search_relevant_data_def temporal_signal_def)
  next
    case False
    then show ?thesis using assms e
      by (auto simp: search_relevant_data_def temporal_signal_def top15_def)
  qed
qed

theorem escalation_contract_witness:
  "extract_intent ''2021'' =
     Inr \<lparr>query_lower = ''2021'', years_in_query = [''2021''], specific_date = None,
          months_in_query = [], is_generic_query = False\<rparr>
   \<and> (\<exists>shown. shown \<noteq> None \<and> search_relevant_data ''2021''
     [example_profile (Some 2020) (Some 8) (Some 10) False :: int profile,
      example_profile (Some 2023) (Some 8) (Some 10) False,
      example_profile (Some 2022) (Some 8) (Some 10) False]
     = Inr (shown, [example_profile (Some 2020) (Some 8) (Some 10) False,
      example_profile (Some 2022) (Some 8) (Some 10) False]))"
proof -
  let ?it = "\<lparr>query_lower = ''2021'', years_in_query = [''2021''], specific_date = None,
          months_in_query = [], is_generic_query = False\<rparr>"
  let ?ps = "[example_profile (Some 2020) (Some 8) (Some 10) False :: int profile,
      example_profile (Some 2023) (Some 8) (Some 10) False,
      example_profile (Some 2022) (Some 8) (Some 10) False]"
  have e: "extract_intent ''2021'' = Inr ?it" by code_simp
  have f: "search_relevant_data_flexible ''2021'' ?ps (years_in_query ?it) (months_in_query ?it)
      (specific_date ?it)
    = [example_profile (Some 2020) (Some 8) (Some 10) False,
      example_profile (Some 2022) (Some 8) (Some 10) False]" by code_simp
  have "keep_positive (relevance_score ?it) ?ps = []" by code_simp
  then have n: "\<forall>p \<in> set ?ps. \<forall>s. relevance_score ?it p = Inr s \<longrightarrow> s \<le> 0"
    by (simp only: keep_positive_empty)
  from escalation_contract[OF e, of ?ps] obtain shown result where
    r: "search_relevant_data ''2021'' ?ps = Inr (shown, result)"
      "(shown \<noteq> None) =
          ((\<forall>p \<in> set ?ps. \<forall>s. relevance_score ?it p = Inr s \<longrightarrow> s \<le> 0)
           \<and> (specific_date ?it \<noteq> None \<or> years_in_query ?it \<noteq> [] \<or> months_in_query ?it \<noteq> []))"
      "shown \<noteq> None \<longrightarrow>
          result = search_relevant_data_flexible ''2021'' ?ps (years_in_query ?it)
                     (months_in_query ?it) (specific_date ?it)"
    by blast
  from r(2) n have "shown \<noteq> None" by simp
  with r(1) r(3) f e show ?thesis by auto
qed

section \<open>Date extraction\<close>

subsection \<open>Searching\<close>

lemma lower_append: "lower (a @ b) = lower a @ lower b"
  by (simp add: lower_def)

lemma length_lower: "length (lower s) = length s"
  by (simp add: lower_def)

text \<open>A search passes over every start position at which the pattern does not match.\<close>

lemma re_search_first:
  "\<forall>j \<in> {0..<length a}. m (drop j (a @ b)) = None \<Longrightarrow> re_search m (a @ b) = re_search m b"
proof (induction a)
  case Nil
  then show ?case by simp
next
  case (Cons c a)
  have "m ((c # a) @ b) = None" using Cons.prems by force
  moreover have "\<forall>j \<in> {0..<length a}. m (drop j (a @ b)) = None"
  proof
    fix j assume "j \<in> {0..<length a}"
    then have "Suc j \<in> {0..<length (c # a)}" by simp
    with Cons.prems have "m (drop (Suc j) ((c # a) @ b)) = None" by blast
    then show "m (drop j (a @ b)) = None" by simp
  qed
  ultimately show ?case using Cons.IH by simp
qed

lemma is_digit_2: "is_digit (CHR ''2'')"
  by (simp add: is_digit_def code_def)

subsection \<open>The two forms at their place\<close>

lemma pattern_dmy_here:
  "pattern_dmy (''15 august 2023'' @ post) = Some (''15'', ''august'', ''2023'')"
  by (simp add: pattern_dmy_def digits12_def spaces1_def year4_def month_names_def
      is_digit_def is_space_def code_def)

lemma pattern_ymd_here:
  "pattern_ymd (''2023-08-15'' @ post) = Some (''2023'', ''08'', ''15'')"
  by (simp add: pattern_ymd_def digits12_def literal_def year4_def is_digit_def code_def)

lemma date_of_dmy: "date_of_groups (''15'', ''august'', ''2023'')
   = Inr \<lparr>sd_year = 2023, sd_month = 8, sd_day = 15\<rparr>"
  by code_simp

lemma date_of_ymd: "date_of_groups (''2023'', ''08'', ''15'')
   = Inr \<lparr>sd_year = 2023, sd_month = 8, sd_day = 15\<rparr>"
  by code_simp

lemma find_dmy:
  assumes "\<forall>j \<in> {0..<length pre}.
             pattern_dmy (drop j (lower (pre @ ''15 August 2023'' @ post))) = None"
  shows "find_specific_date (lower (pre @ ''15 August 2023'' @ post))
     = Inr (Some \<lparr>sd_year = 2023, sd_month = 8, sd_day = 15\<rparr>)"
proof -
  have l: "lower ''15 August 2023'' = ''15 august 2023''" by code_simp
  have q: "lower (pre @ ''15 August 2023'' @ post) = lower pre @ (''15 august 2023'' @ lower post)"
    by (simp only: lower_append l)
  have "\<forall>j \<in> {0..<length (lower pre)}.
      pattern_dmy (drop j (lower pre @ (''15 august 2023'' @ lower post))) = None"
    using assms unfolding q by (simp only: length_lower)
  then have "re_search pattern_dmy (lower pre @ (''15 august 2023'' @ lower post))
      = re_search pattern_dmy (''15 august 2023'' @ lower post)"
    by (rule re_search_first)
  also have "\<dots> = Some (''15'', ''august'', ''2023'')"
    using pattern_dmy_here[of "lower post"] by simp
  finally show ?thesis
    unfolding q by (simp add: find_specific_date_def date_patterns_def date_of_dmy del: append.simps)
qed

lemma find_ymd:
  assumes "re_search pattern_dmy (lower (pre @ ''2023-08-15'' @ post)) = None"
    and "re_search pattern_mdy (lower (pre @ ''2023-08-15'' @ post)) = None"
    and "\<forall>j \<in> {0..<length pre}.
           pattern_ymd (drop j (lower (pre @ ''2023-08-15'' @ post))) = None"
  shows "find_specific_date (lower (pre @ ''2023-08-15'' @ post))
     = Inr (Some \<lparr>sd_year = 2023, sd_month = 8, sd_day = 15\<rparr>)"
proof -
  have l: "lower ''2023-08-15'' = ''2023-08-15''" by code_simp
  have q: "lower (pre @ ''2023-08-15'' @ post) = lower pre @ (''2023-08-15'' @ lower post)"
    by (simp only: lower_append l)
  have "\<forall>j \<in> {0..<length (lower pre)}.
      pattern_ymd (drop j (lower pre @ (''2023-08-15'' @ lower post))) = None"
    using assms(3) unfolding q by (simp only: length_lower)
  then have "re_search pattern_ymd (lower pre @ (''2023-08-15'' @ lower post))
      = re_search pattern_ymd (''2023-08-15'' @ lower post)"
    by (rule re_search_first)
  also have "\<dots> = Some (''2023'', ''08'', ''15'')"
    using pattern_ymd_here[of "lower post"] by simp
  finally show ?thesis
    using assms(1,2) unfolding q
    by (simp add: find_specific_date_def date_patterns_def date_of_ymd del: append.simps)
qed

lemma extract_intent_date:
  "find_specific_date (lower query) = Inr sd \<Longrightarrow>
     \<exists>it. extract_intent query = Inr it \<and> specific_date it = sd"
  by (simp add: extract_intent_def Let_def)

subsection \<open>The roles of the groups\<close>

lemma alt_Some:
  "alt ms k s = Some (m, r) \<Longrightarrow> m \<in> set ms \<and> k (drop (length m) s) = Some r"
  by (induction ms) (auto split: if_splits option.splits)

lemma digits12_Some:
  "digits12 s = Some (d, r) \<Longrightarrow> d \<noteq> [] \<and> list_all is_digit d \<and> length d \<le> 2"
proof -
  assume a: "digits12 s = Some (d, r)"
  then have d: "d = takeWhile is_digit (take 2 s)" "d \<noteq> []"
    by (auto simp: digits12_def Let_def split: if_splits)
  have "length (takeWhile is_digit (take 2 s)) \<le> length (take 2 s)" by (rule length_takeWhile_le)
  then have "length d \<le> 2" using d by simp
  moreover have "list_all is_digit d" unfolding d(1) list_all_iff by (meson set_takeWhileD)
  ultimately show ?thesis using d by simp
qed

lemma year4_Some:
  "year4 s = Some (y, r) \<Longrightarrow> length y = 4 \<and> list_all is_digit y \<and> startswith y ''20''"
  using is_digit_2 by (auto simp: year4_def is_digit_def code_def split: list.splits if_splits)

lemma py_int_digits: "d \<noteq> [] \<Longrightarrow> list_all is_digit d \<Longrightarrow> py_int d = Inr (int (nat_of_digits d))"
  by (simp add: py_int_def)

lemma str_isdigit_digits: "d \<noteq> [] \<Longrightarrow> list_all is_digit d \<Longrightarrow> str_isdigit d"
  by (auto simp: str_isdigit_def isdigit_char_def list_all_iff)

lemma month_names_are_no_numbers:
  "\<forall>m \<in> set month_names. \<not> str_isdigit m \<and> py_int m = Inl ValueError"
  by code_simp

lemma date_of_dmy_groups:
  assumes "pattern_dmy s = Some (d, m, y)"
  shows "date_of_groups (d, m, y)
     = Inr \<lparr>sd_year = int (nat_of_digits y), sd_month = month_to_number m,
            sd_day = int (nat_of_digits d)\<rparr>"
proof -
  from assms obtain r1 r2 r4 r5 where
    d: "digits12 s = Some (d, r1)" and y: "year4 r4 = Some (y, r5)"
    by (auto simp: pattern_dmy_def bind_eq_Some_conv dest!: alt_Some)
  from year4_Some[OF y] have "y \<noteq> []" by auto
  with digits12_Some[OF d] year4_Some[OF y] show ?thesis
    by (auto simp: date_of_groups_def py_int_digits)
qed

lemma date_of_ymd_groups:
  assumes "pattern_ymd s = Some (y, m, d)"
  shows "date_of_groups (y, m, d)
     = Inr \<lparr>sd_year = int (nat_of_digits y), sd_month = int (nat_of_digits m),
            sd_day = int (nat_of_digits d)\<rparr>"
proof -
  from assms obtain r1 r2 r3 r4 r5 where
    y: "year4 s = Some (y, r1)" and m: "digits12 r2 = Some (m, r3)" and d: "digits12 r4 = Some (d, r5)"
    by (auto simp: pattern_ymd_def bind_eq_Some_conv)
  from year4_Some[OF y] have "y \<noteq> []" by auto
  with digits12_Some[OF d] digits12_Some[OF m] year4_Some[OF y] show ?thesis
    by (auto simp: date_of_groups_def int3_def py_int_digits str_isdigit_digits)
qed

lemma date_of_mdy_groups:
  assumes "pattern_mdy s = Some (m, d, y)"
  shows "date_of_groups (m, d, y) = Inl ValueError"
proof -
  from assms obtain r4 r5 where
    m: "m \<in> set month_names" and y: "year4 r4 = Some (y, r5)"
    by (auto simp: pattern_mdy_def bind_eq_Some_conv dest!: alt_Some)
  from m month_names_are_no_numbers have "\<not> str_isdigit m" "py_int m = Inl ValueError" by auto
  with year4_Some[OF y] show ?thesis
    by (auto simp: date_of_groups_def)
qed




text \<open>
  Claim C1, as amended. For every query of the form \<open>pre + "15 August 2023" + post\<close> in
  which the pattern day, month name, year matches at no position before that substring,
  the temporal extraction of \<open>search_relevant_data\<close> yields the specific date of year 2023,
  month 8 and day 15. For every query of the form \<open>pre + "2023-08-15" + post\<close> in which
  neither of the two patterns with a month name matches anywhere and the pattern
  year-month-day matches at no position before that substring, it yields the same date.
  The roles of the groups are chosen by the shape of the groups: on every match of the
  pattern day, month name, year the date is (third group, number of the month named by the
  second, first group), and on every match of the pattern year-month-day it is (first,
  second, third group).
\<close>

theorem date_extraction:
  "((\<forall>j \<in> {0..<length pre}.
        pattern_dmy (drop j (lower (pre @ ''15 August 2023'' @ post))) = None) \<longrightarrow>
      (\<exists>it. extract_intent (pre @ ''15 August 2023'' @ post) = Inr it
            \<and> specific_date it = Some \<lparr>sd_year = 2023, sd_month = 8, sd_day = 15\<rparr>))
   \<and> (re_search pattern_dmy (lower (pre @ ''2023-08-15'' @ post)) = None
       \<and> re_search pattern_mdy (lower (pre @ ''2023-08-15'' @ post)) = None
       \<and> (\<forall>j \<in> {0..<length pre}.
            pattern_ymd (drop j (lower (pre @ ''2023-08-15'' @ post))) = None) \<longrightarrow>
      (\<exists>it. extract_intent (pre @ ''2023-08-15'' @ post) = Inr it
            \<and> specific_date it = Some \<lparr>sd_year = 2023, sd_month = 8, sd_day = 15\<rparr>))
   \<and> (\<forall>s d m y. pattern_dmy s = Some (d, m, y) \<longrightarrow>
         date_of_groups (d, m, y)
           = Inr \<lparr>sd_year = int (nat_of_digits y), sd_month = month_to_number m,
                  sd_day = int (nat_of_digits d)\<rparr>)
   \<and> (\<forall>s y m d. pattern_ymd s = Some (y, m, d) \<longrightarrow>
         date_of_groups (y, m, d)
           = Inr \<lparr>sd_year = int (nat_of_digits y), sd_month = int (nat_of_digits m),
                  sd_day = int (nat_of_digits d)\<rparr>)"
proof (intro conjI impI allI)
  assume "\<forall>j \<in> {0..<length pre}.
        pattern_dmy (drop j (lower (pre @ ''15 August 2023'' @ post))) = None"
  then show "\<exists>it. extract_intent (pre @ ''15 August 2023'' @ post) = Inr it
            \<and> specific_date it = Some \<lparr>sd_year = 2023, sd_month = 8, sd_day = 15\<rparr>"
    by (intro extract_intent_date find_dmy)
next
  assume "re_search pattern_dmy (lower (pre @ ''2023-08-15'' @ post)) = None
       \<and> re_search pattern_mdy (lower (pre @ ''2023-08-15'' @ post)) = None
       \<and> (\<forall>j \<in> {0..<length pre}.
            pattern_ymd (drop j (lower (pre @ ''2023-08-15'' @ post))) = None)"
  then show "\<exists>it. extract_intent (pre @ ''2023-08-15'' @ post) = Inr it
            \<and> specific_date it = Some \<lparr>sd_year = 2023, sd_month = 8, sd_day = 15\<rparr>"
    by (intro extract_intent_date find_ymd) simp_all
next
  fix s d m y assume "pattern_dmy s = Some (d, m, y)"
  then show "date_of_groups (d, m, y)
           = Inr \<lparr>sd_year = int (nat_of_digits y), sd_month = month_to_number m,
                  sd_day = int (nat_of_digits d)\<rparr>"
    by (rule date_of_dmy_groups)
next
  fix s y m d assume "pattern_ymd s = Some (y, m, d)"
  then show "date_of_groups (y, m, d)
           = Inr \<lparr>sd_year = int (nat_of_digits y), sd_month = int (nat_of_digits m),
                  sd_day = int (nat_of_digits d)\<rparr>"
    by (rule date_of_ymd_groups)
qed

theorem date_extraction_witness:
  "(\<exists>it. extract_intent ''float 2902115, 3 profiles for 15 August 2023 at depth 200'' = Inr it
       \<and> specific_date it = Some \<lparr>sd_year = 2023, sd_month = 8, sd_day = 15\<rparr>)
   \<and> (\<exists>it. extract_intent ''top 5 on 2023-08-15 and depth 200'' = Inr it
       \<and> specific_date it = Some \<lparr>sd_year = 2023, sd_month = 8, sd_day = 15\<rparr>)"
proof -
  let ?pre1 = "''float 2902115, 3 profiles for ''" and ?post1 = "'' at depth 200''"
  let ?pre2 = "''top 5 on ''" and ?post2 = "'' and depth 200''"
  have a: "\<forall>j \<in> {0..<length ?pre1}.
      pattern_dmy (drop j (lower (?pre1 @ ''15 August 2023'' @ ?post1))) = None"
    by code_simp
  have b: "re_search pattern_dmy (lower (?pre2 @ ''2023-08-15'' @ ?post2)) = None
       \<and> re_search pattern_mdy (lower (?pre2 @ ''2023-08-15'' @ ?post2)) = None
       \<and> (\<forall>j \<in> {0..<length ?pre2}.
            pattern_ymd (drop j (lower (?pre2 @ ''2023-08-15'' @ ?post2))) = None)"
    by code_simp
  from date_extraction[of ?pre1 ?post1] a
  have 1: "\<exists>it. extract_intent (?pre1 @ ''15 August 2023'' @ ?post1) = Inr it
       \<and> specific_date it = Some \<lparr>sd_year = 2023, sd_month = 8, sd_day = 15\<rparr>" by blast
  from date_extraction[of ?pre2 ?post2] b
  have 2: "\<exists>it. extract_intent (?pre2 @ ''2023-08-15'' @ ?post2) = Inr it
       \<and> specific_date it = Some \<lparr>sd_year = 2023, sd_month = 8, sd_day = 15\<rparr>" by blast
  from 1 2 show ?thesis by simp
qed

text \<open>
  Claim C1 as stated fails. A query can contain \<open>15 August 2023\<close>, or \<open>2023-08-15\<close>, and
  yield another date, because the first pattern that matches anywhere decides, at its
  leftmost match. And the query \<open>August 15 2023\<close> yields no date: the extraction raises
  \<open>ValueError\<close>.
\<close>

theorem date_extraction_counterexample:
  "contains ''1 May 2020 and 15 August 2023'' ''15 August 2023''
   \<and> extract_intent ''1 May 2020 and 15 August 2023'' =
       Inr \<lparr>query_lower = ''1 may 2020 and 15 august 2023'', years_in_query = [''2020'', ''2023''],
            specific_date = Some \<lparr>sd_year = 2020, sd_month = 5, sd_day = 1\<rparr>,
            months_in_query = [], is_generic_query = False\<rparr>
   \<and> contains ''2023-08-15 may 2020'' ''2023-08-15''
   \<and> extract_intent ''2023-08-15 may 2020'' =
       Inr \<lparr>query_lower = ''2023-08-15 may 2020'', years_in_query = [''2023'', ''2020''],
            specific_date = Some \<lparr>sd_year = 2020, sd_month = 5, sd_day = 15\<rparr>,
            months_in_query = [], is_generic_query = False\<rparr>
   \<and> extract_intent ''August 15 2023'' = Inl ValueError"
  by code_simp

text \<open>
  The pattern month name, day, year is no part of the amended claim. Its third group always
  starts with \<open>20\<close>, so line 896 takes its groups for day, month name, year, and \<open>int\<close> of
  the month name raises \<open>ValueError\<close> outside every \<open>try\<close>, on every match of the pattern
  (\<open>date_of_mdy_groups\<close>): the \<open>else\<close> branch of line 899, written for this pattern, is
  never reached.
\<close>

lemma month_day_year_raises: "extract_intent ''August 15 2023'' = Inl ValueError"
  by code_simp

section \<open>Month extraction\<close>


lemma startswith_append: "startswith s (a @ b) \<Longrightarrow> startswith s a"
  by (induction s a rule: startswith.induct) simp_all

lemma contains_append: "contains s (a @ b) \<Longrightarrow> contains s a"
  by (induction s) (auto dest: startswith_append)

lemma count_filtered:
  "count_list (map snd (filter P tbl)) m = length (filter (\<lambda>x. snd x = m \<and> P x) tbl)"
  by (induction tbl) auto

lemma count_filtered_le: "count_list (map snd (filter P tbl)) m \<le> count_list (map snd tbl) m"
  by (induction tbl) auto

lemma months_map_at_most_two: "count_list (map snd months_map) m \<le> 2"
  by (simp add: months_map_def)

lemma months_named_count:
  "count_list (months_named ql) m
     = length (filter (\<lambda>(month_name, month_num). month_num = m \<and> contains ql month_name) months_map)"
  unfolding months_named_def count_filtered by (simp add: case_prod_unfold)

lemma months_named_at_most_two: "count_list (months_named ql) m \<le> 2"
  unfolding months_named_def
  by (rule order_trans[OF count_filtered_le months_map_at_most_two])

lemma months_named_august:
  assumes "contains ql ''august''"
  shows "count_list (months_named ql) 8 = 2"
proof -
  have "contains ql (''aug'' @ ''ust'')" using assms by simp
  then have "contains ql ''aug''" by (rule contains_append)
  with assms show ?thesis by (simp add: months_named_count months_map_def)
qed

lemma count_list_distinct: "distinct xs \<Longrightarrow> count_list xs x \<le> 1"
  by (induction xs) (auto simp: count_list_0_iff)

lemma last_months_at_most_once: "count_list (last_months n) m \<le> 1"
  unfolding last_months_def by (rule count_list_distinct) simp

text \<open>
  Claim C6, as amended. For every query whose intent is extracted, the list of months
  holds each month number twice at most. When no specific date is found and the list is not
  overridden (the query has no \<open>last N months\<close> phrase, or it has no year), a month number
  is in the list once for each of its names (the full name, the abbreviation) that is a
  substring of the lower-cased query: the list is not deduplicated, and a query containing
  \<open>august\<close> contributes month 8 exactly twice, once for \<open>august\<close> and once for \<open>aug\<close>.
\<close>

theorem months_counted_per_name:
  assumes "extract_intent query = Inr it"
  shows "count_list (months_in_query it) m \<le> 2
     \<and> (specific_date it = None
          \<and> (re_search pattern_last (lower query) = None \<or> years_in_query it = []) \<longrightarrow>
          count_list (months_in_query it) m
            = length (filter (\<lambda>(month_name, month_num).
                        month_num = m \<and> contains (lower query) month_name) months_map))
     \<and> (specific_date it = None
          \<and> (re_search pattern_last (lower query) = None \<or> years_in_query it = [])
          \<and> contains (lower query) ''august'' \<longrightarrow> count_list (months_in_query it) 8 = 2)"
proof -
  from assms obtain sd where sd: "find_specific_date (lower query) = Inr sd"
    by (cases "find_specific_date (lower query)") (simp_all add: extract_intent_def Let_def)
  have m: "months_in_query it =
      (case re_search pattern_last (lower query) of
         Some g \<Rightarrow> if findall_years None query \<noteq> [] then last_months (int (nat_of_digits g))
                   else (if sd = None then months_named (lower query) else [])
       | None \<Rightarrow> (if sd = None then months_named (lower query) else []))"
    and s: "specific_date it = sd"
    and y: "years_in_query it = findall_years None query"
    using assms sd by (auto simp: extract_intent_def Let_def)
  have "count_list (last_months n) m \<le> 2" for n
    using last_months_at_most_once[of n m] by simp
  then have c1: "count_list (months_in_query it) m \<le> 2"
    unfolding m by (auto simp: months_named_at_most_two split: option.splits)
  have n: "months_in_query it = months_named (lower query)"
    if "specific_date it = None"
      "re_search pattern_last (lower query) = None \<or> years_in_query it = []"
    using that m s y by (auto split: option.splits)
  have c2: "specific_date it = None
          \<and> (re_search pattern_last (lower query) = None \<or> years_in_query it = []) \<longrightarrow>
          count_list (months_in_query it) m
            = length (filter (\<lambda>(month_name, month_num).
                        month_num = m \<and> contains (lower query) month_name) months_map)"
    using n by (simp add: months_named_count)
  have c3: "specific_date it = None
          \<and> (re_search pattern_last (lower query) = None \<or> years_in_query it = [])
          \<and> contains (lower query) ''august'' \<longrightarrow> count_list (months_in_query it) 8 = 2"
    using n by (simp add: months_named_august)
  from c1 c2 c3 show ?thesis by blast
qed

theorem months_counted_per_name_witness:
  "extract_intent ''last 3 months of August'' =
     Inr \<lparr>query_lower = ''last 3 months of august'', years_in_query = [], specific_date = None,
          months_in_query = [8, 8], is_generic_query = False\<rparr>
   \<and> count_list (months_in_query
       \<lparr>query_lower = ''last 3 months of august'', years_in_query = [], specific_date = None,
          months_in_query = [8, 8], is_generic_query = False\<rparr>) 8 = 2"
proof -
  let ?it = "\<lparr>query_lower = ''last 3 months of august'', years_in_query = [],
          specific_date = None, months_in_query = [8, 8], is_generic_query = False\<rparr>"
  have e: "extract_intent ''last 3 months of August'' = Inr ?it" by code_simp
  have a: "specific_date ?it = None" by simp
  have b: "re_search pattern_last (lower ''last 3 months of August'') = None
      \<or> years_in_query ?it = []" by simp
  have c: "contains (lower ''last 3 months of August'') ''august''" by code_simp
  from months_counted_per_name[OF e, of 8] a b c
  have "count_list (months_in_query ?it) 8 = 2" by blast
  with e show ?thesis by blast
qed

text \<open>
  Claim C6 as stated fails: the query \<open>august\<close> yields the list \<open>[8, 8]\<close>, in which month
  8 occurs twice.
\<close>

theorem months_not_deduplicated:
  "extract_intent ''august'' =
     Inr \<lparr>query_lower = ''august'', years_in_query = [], specific_date = None,
          months_in_query = [8, 8], is_generic_query = False\<rparr>
   \<and> \<not> distinct [8, 8 :: int]"
  by code_simp

section \<open>The relaxed scorer: exact and adjacent years\<close>

lemma target_years_ints: "target_years years = Inr ys \<Longrightarrow> years \<noteq> [] \<Longrightarrow> ys \<noteq> []"
  by (cases years) (auto split: sum.splits)

text \<open>
  Claim C8. In the relaxed scorer, in the tier of the years (lines 1056 to 1061, which runs
  when the search has no specific date), take two profiles that are identical except for
  the year: the year of the first is a queried year (8 points), the year of the second
  differs from every queried year by exactly 1 (4 points). Whenever the first has a total
  score, the second has one too, and it is lower by exactly 4.
\<close>

theorem adjacent_year_scores_lower:
  fixes p1 p2 :: "'f profile"
  assumes "temporal p1 = Some t1"
    and "p2 = p1\<lparr>temporal := Some (t1\<lparr>year := Some y2\<rparr>)\<rparr>"
    and "target_years years = Inr ys"
    and "year t1 = Some y1" and "y1 \<in> set ys"
    and "\<forall>y \<in> set ys. \<bar>y2 - y\<bar> = 1"
    and "flexible_score query years months None p1 = Inr s1"
  shows "\<exists>s2. flexible_score query years months None p2 = Inr s2 \<and> s1 = s2 + 4 \<and> s2 < s1"
proof -
  from assms(3,5) have ne: "years \<noteq> []" by auto
  from assms(5,6) have "y2 \<notin> set ys" by auto
  then have n2: "Some y2 \<notin> Some ` set ys" by auto
  from assms(5,6) have ex: "list_ex (\<lambda>y. \<bar>y2 - y\<bar> \<le> 1) ys" by (auto simp: list_ex_iff)
  have y1: "flexible_year_tier years (get_temporal p1) = Inr 8"
    using assms(1,3,4,5) by (simp add: flexible_year_tier_def get_temporal_def)
  have y2: "flexible_year_tier years (get_temporal p2) = Inr 4"
    using assms(1,2,3) n2 ex by (simp add: flexible_year_tier_def get_temporal_def any_within_def)
  have m: "flexible_month_tier months (get_temporal p2) = flexible_month_tier months (get_temporal p1)"
    using assms(1,2) by (simp add: flexible_month_tier_def get_temporal_def)
  have r: "get_regions p2 [] = get_regions p1 []"
    using assms(2) by (simp add: get_regions_def)
  have q: "flexible_parameter_tier (lower query) p2 = flexible_parameter_tier (lower query) p1"
    using assms(2) by (simp add: flexible_parameter_tier_def get_core_def)
  from assms(7) y1 y2 m r q ne show ?thesis
    by (auto simp: flexible_score_def Let_def split: sum.splits)
qed

theorem adjacent_year_scores_lower_witness:
  "flexible_score ''temperature 2021'' [''2021''] [] None
      (example_profile (Some 2021) (Some 8) (Some 10) True :: int profile) = Inr 10
   \<and> flexible_score ''temperature 2021'' [''2021''] [] None
      (example_profile (Some 2022) (Some 8) (Some 10) True :: int profile) = Inr 6"
proof -
  let ?p1 = "example_profile (Some 2021) (Some 8) (Some 10) True :: int profile"
  let ?p2 = "example_profile (Some 2022) (Some 8) (Some 10) True :: int profile"
  let ?t1 = "\<lparr>year = Some 2021, month = Some 8, day = Some 10, datetime = None\<rparr>"
  have a1: "temporal ?p1 = Some ?t1" by (simp add: example_profile_def)
  have a2: "?p2 = ?p1\<lparr>temporal := Some (?t1\<lparr>year := Some 2022\<rparr>)\<rparr>" by (simp add: example_profile_def)
  have a3: "target_years [''2021''] = Inr [2021]" by code_simp
  have a4: "year ?t1 = Some 2021" by simp
  have a5: "(2021::int) \<in> set [2021]" by simp
  have a6: "\<forall>y \<in> set [2021::int]. \<bar>2022 - y\<bar> = 1" by simp
  have a7: "flexible_score ''temperature 2021'' [''2021''] [] None ?p1 = Inr 10" by code_simp
  from adjacent_year_scores_lower[OF a1 a2 a3 a4 a5 a6 a7] a7 show ?thesis by auto
qed

end
